theory Spec2Isabelle
  imports Main "HOL-Library.Word"
begin

section \<open>JavaScript values used by the two components\<close>

text \<open>
  A JavaScript string is a sequence of UTF-16 code units. Literals of the source are
  written through \<open>ascii\<close>, template literals are concatenations.
\<close>

type_synonym jsstring = "16 word list"

definition ascii :: "string \<Rightarrow> jsstring" where
  "ascii cs = map (\<lambda>c. of_nat (of_char c)) cs"

text \<open>
  \<open>String.prototype.trim\<close> strips the code units that ECMAScript calls WhiteSpace or
  LineTerminator from both ends.
\<close>

definition js_whitespace :: "16 word \<Rightarrow> bool" where
  "js_whitespace c \<longleftrightarrow>
     c = 0x0009 \<or> c = 0x000A \<or> c = 0x000B \<or> c = 0x000C \<or> c = 0x000D \<or>
     c = 0x0020 \<or> c = 0x00A0 \<or> c = 0x1680 \<or> (0x2000 \<le> c \<and> c \<le> 0x200A) \<or>
     c = 0x2028 \<or> c = 0x2029 \<or> c = 0x202F \<or> c = 0x205F \<or> c = 0x3000 \<or>
     c = 0xFEFF"

definition trim :: "jsstring \<Rightarrow> jsstring" where
  "trim s = rev (dropWhile js_whitespace (rev (dropWhile js_whitespace s)))"

text \<open>Truthiness of a \<open>string\<close> and of a \<open>string | null\<close>: the empty string and null are falsy.\<close>

definition truthy :: "jsstring \<Rightarrow> bool" where
  "truthy s \<longleftrightarrow> s \<noteq> []"

definition truthy_opt :: "jsstring option \<Rightarrow> bool" where
  "truthy_opt v = (case v of None \<Rightarrow> False | Some s \<Rightarrow> truthy s)"

text \<open>
  The value caught by a \<open>catch (e: any)\<close>: only \<open>e.message\<close> is read, which is a string
  or undefined (\<open>None\<close>).
\<close>

datatype js_error = JsError (message: "jsstring option")

text \<open>\<open>e.message || fallback\<close>: the fallback replaces an undefined or empty message.\<close>

definition message_or :: "js_error \<Rightarrow> jsstring \<Rightarrow> jsstring" where
  "message_or e fallback =
     (case message e of None \<Rightarrow> fallback | Some m \<Rightarrow> if truthy m then m else fallback)"

text \<open>\<open>${e.message}\<close> inside a template literal: undefined is printed as its name.\<close>

definition message_text :: "js_error \<Rightarrow> jsstring" where
  "message_text e = (case message e of None \<Rightarrow> ascii ''undefined'' | Some m \<Rightarrow> m)"

text \<open>
  What an awaited call of the database client gives back: the promise is rejected with
  a thrown value, or fulfilled with the pair \<open>{ data, error }\<close>, each of which may be null.
\<close>

datatype 'd response = Response "'d option" "js_error option"

datatype 'd awaited = Fulfilled "'d response" | Rejected js_error

section \<open>The list view (routes/places/+page.svelte)\<close>

record place =
  place_id :: jsstring
  place_created_at :: jsstring
  place_name :: jsstring
  place_location :: "jsstring option"
  place_description :: "jsstring option"
  place_visited :: bool

text \<open>The remote operations the page issues on the table \<open>places\<close>.\<close>

datatype remote_call =
    SelectAll
  | UpdateVisited jsstring bool
  | DeleteById jsstring

text \<open>
  An async function suspended at its \<open>await\<close>: the continuation together with the
  locals it closes over (\<open>place\<close> and \<open>originalStatus\<close>; \<open>placeToDelete\<close> and
  \<open>originalPlaces\<close>).
\<close>

datatype continuation =
    AwaitSelect
  | AwaitUpdate place bool
  | AwaitDelete place "place list"

text \<open>
  The five component variables, followed by what the component has done to its
  environment: the alerts shown, the remote calls issued and the suspended calls.
\<close>

record page_state =
  places :: "place list"
  loading :: bool
  error :: "jsstring option"
  updatingStatusFor :: "jsstring option"
  deletingPlaceId :: "jsstring option"
  alerts :: "jsstring list"
  calls :: "remote_call list"
  pending :: "continuation list"

definition init_page :: page_state where
  "init_page = \<lparr> places = [], loading = True, error = None, updatingStatusFor = None,
     deletingPlaceId = None, alerts = [], calls = [], pending = [] \<rparr>"

subsection \<open>fetchPlaces\<close>

definition fetchPlaces_begin :: "page_state \<Rightarrow> page_state" where
  "fetchPlaces_begin s =
     s\<lparr> loading := True, error := None,
        calls := calls s @ [SelectAll], pending := pending s @ [AwaitSelect] \<rparr>"

definition fetchPlaces_catch :: "js_error \<Rightarrow> page_state \<Rightarrow> page_state" where
  "fetchPlaces_catch e s =
     s\<lparr> error := Some (message_or e (ascii ''Failed to fetch places.'')), loading := False \<rparr>"

definition fetchPlaces_resume :: "place list awaited \<Rightarrow> page_state \<Rightarrow> page_state" where
  "fetchPlaces_resume r s =
     (case r of
        Rejected e \<Rightarrow> fetchPlaces_catch e s
      | Fulfilled (Response d supabaseError) \<Rightarrow>
          (case supabaseError of
             Some e \<Rightarrow> fetchPlaces_catch e s
           | None \<Rightarrow>
               (case d of
                  Some rows \<Rightarrow> s\<lparr> places := rows, loading := False \<rparr>
                | None \<Rightarrow> s\<lparr> loading := False \<rparr>)))"

text \<open>\<open>onMount\<close> calls \<open>fetchPlaces\<close> once.\<close>

definition mounted_page :: page_state where
  "mounted_page = fetchPlaces_begin init_page"

subsection \<open>handlePlaceAdded\<close>

definition handlePlaceAdded :: "place \<Rightarrow> page_state \<Rightarrow> page_state" where
  "handlePlaceAdded newPlace s = s\<lparr> places := newPlace # places s \<rparr>"

subsection \<open>toggleVisitedStatus\<close>

text \<open>The part up to the \<open>await\<close>: the guard, the marker and the optimistic map.\<close>

definition toggleVisitedStatus_begin :: "place \<Rightarrow> page_state \<Rightarrow> page_state" where
  "toggleVisitedStatus_begin pl s =
     (if updatingStatusFor s = Some (place_id pl) then s
      else
        s\<lparr> updatingStatusFor := Some (place_id pl),
           places := map (\<lambda>p. if place_id p = place_id pl
                                then p\<lparr> place_visited := \<not> place_visited p \<rparr> else p) (places s),
           calls := calls s @ [UpdateVisited (place_id pl) (\<not> place_visited pl)],
           pending := pending s @ [AwaitUpdate pl (place_visited pl)] \<rparr>)"

definition toggleVisitedStatus_catch :: "place \<Rightarrow> bool \<Rightarrow> js_error \<Rightarrow> page_state \<Rightarrow> page_state" where
  "toggleVisitedStatus_catch pl originalStatus e s =
     s\<lparr> places := map (\<lambda>p. if place_id p = place_id pl
                             then p\<lparr> place_visited := originalStatus \<rparr> else p) (places s),
        alerts := alerts s @
          [ascii ''Failed to update status for '' @ place_name pl @ ascii '': '' @ message_text e],
        updatingStatusFor := None \<rparr>"

text \<open>The part after the \<open>await\<close>: throw on an error, roll back in \<open>catch\<close>, clear the marker.\<close>

definition toggleVisitedStatus_resume ::
  "place \<Rightarrow> bool \<Rightarrow> place list awaited \<Rightarrow> page_state \<Rightarrow> page_state" where
  "toggleVisitedStatus_resume pl originalStatus r s =
     (case r of
        Rejected e \<Rightarrow> toggleVisitedStatus_catch pl originalStatus e s
      | Fulfilled (Response d updateError) \<Rightarrow>
          (case updateError of
             Some e \<Rightarrow> toggleVisitedStatus_catch pl originalStatus e s
           | None \<Rightarrow> s\<lparr> updatingStatusFor := None \<rparr>))"

subsection \<open>deletePlace\<close>

definition delete_prompt :: "place \<Rightarrow> jsstring" where
  "delete_prompt pl =
     ascii ''Are you sure you want to delete \"'' @ place_name pl @
     ascii ''\"? This action cannot be undone.''"

text \<open>
  The part up to the \<open>await\<close>. The answer of the blocking \<open>confirm\<close> dialog is the
  function \<open>confirm\<close>, asked with the prompt text.
\<close>

definition deletePlace_begin :: "(jsstring \<Rightarrow> bool) \<Rightarrow> place \<Rightarrow> page_state \<Rightarrow> page_state" where
  "deletePlace_begin confirm placeToDelete s =
     (if deletingPlaceId s = Some (place_id placeToDelete) then s
      else if \<not> confirm (delete_prompt placeToDelete) then s
      else
        s\<lparr> deletingPlaceId := Some (place_id placeToDelete),
           places := filter (\<lambda>p. place_id p \<noteq> place_id placeToDelete) (places s),
           calls := calls s @ [DeleteById (place_id placeToDelete)],
           pending := pending s @ [AwaitDelete placeToDelete (places s)] \<rparr>)"

definition deletePlace_catch :: "place \<Rightarrow> place list \<Rightarrow> js_error \<Rightarrow> page_state \<Rightarrow> page_state" where
  "deletePlace_catch placeToDelete originalPlaces e s =
     s\<lparr> places := originalPlaces,
        alerts := alerts s @
          [ascii ''Failed to delete '' @ place_name placeToDelete @ ascii '': '' @ message_text e],
        deletingPlaceId := None \<rparr>"

definition deletePlace_resume ::
  "place \<Rightarrow> place list \<Rightarrow> place list awaited \<Rightarrow> page_state \<Rightarrow> page_state" where
  "deletePlace_resume placeToDelete originalPlaces r s =
     (case r of
        Rejected e \<Rightarrow> deletePlace_catch placeToDelete originalPlaces e s
      | Fulfilled (Response d deleteError) \<Rightarrow>
          (case deleteError of
             Some e \<Rightarrow> deletePlace_catch placeToDelete originalPlaces e s
           | None \<Rightarrow> s\<lparr> deletingPlaceId := None \<rparr>))"

subsection \<open>The template: which block is rendered, and which buttons are enabled\<close>

text \<open>
  The \<open>{#if}\<close> chain of the markup. The list, and with it the two buttons of every
  record, exists only in the last branch; \<open>Try Again\<close> exists only in the error branch.
  The list is a keyed block, \<open>{#each places as place (place.id)}\<close>: it renders one row
  per record only when no key is repeated. With a repeated key the block throws
  \<open>Cannot have duplicate keys in a keyed each\<close> in development and loses rows in
  production; that page is \<open>DuplicateKeys\<close>, and no row or button of it is modelled.
\<close>

datatype view =
  LoadingView | ErrorView jsstring | EmptyView | DuplicateKeys | ListView "place list"

definition render :: "page_state \<Rightarrow> view" where
  "render s =
     (if loading s \<and> length (places s) = 0 then LoadingView
      else if truthy_opt (error s) then ErrorView (the (error s))
      else if length (places s) = 0 then EmptyView
      else if \<not> distinct (map place_id (places s)) then DuplicateKeys
      else ListView (places s))"

text \<open>The \<open>disabled\<close> attributes of the two buttons of the record \<open>pl\<close>.\<close>

definition toggle_disabled :: "place \<Rightarrow> page_state \<Rightarrow> bool" where
  "toggle_disabled pl s \<longleftrightarrow>
     updatingStatusFor s = Some (place_id pl) \<or> truthy_opt (deletingPlaceId s)"

definition delete_disabled :: "place \<Rightarrow> page_state \<Rightarrow> bool" where
  "delete_disabled pl s \<longleftrightarrow>
     deletingPlaceId s = Some (place_id pl) \<or> truthy_opt (updatingStatusFor s)"

text \<open>
  A click on a button of the \<open>i\<close>-th rendered record. A button that is not rendered or is
  disabled fires no click event; otherwise the handler runs with that record. On a page
  with a repeated key no click is modelled.
\<close>

definition click_toggle :: "nat \<Rightarrow> page_state \<Rightarrow> page_state" where
  "click_toggle i s =
     (case render s of
        ListView ps \<Rightarrow>
          if i < length ps \<and> \<not> toggle_disabled (ps ! i) s
          then toggleVisitedStatus_begin (ps ! i) s else s
      | _ \<Rightarrow> s)"

definition click_delete :: "(jsstring \<Rightarrow> bool) \<Rightarrow> nat \<Rightarrow> page_state \<Rightarrow> page_state" where
  "click_delete confirm i s =
     (case render s of
        ListView ps \<Rightarrow>
          if i < length ps \<and> \<not> delete_disabled (ps ! i) s
          then deletePlace_begin confirm (ps ! i) s else s
      | _ \<Rightarrow> s)"

definition click_retry :: "page_state \<Rightarrow> page_state" where
  "click_retry s = (case render s of ErrorView m \<Rightarrow> fetchPlaces_begin s | _ \<Rightarrow> s)"

subsection \<open>The event loop of the page\<close>

text \<open>
  Everything that can happen to the mounted page: a click, the \<open>placeAdded\<close> event of
  the form, or the \<open>k\<close>-th suspended call being resumed with the outcome of its remote
  call. Suspended calls are resumed in any order.
\<close>

datatype event =
    ClickRetry
  | ClickToggle nat
  | ClickDelete "jsstring \<Rightarrow> bool" nat
  | PlaceAdded place
  | Resume nat "place list awaited"

definition drop_nth :: "nat \<Rightarrow> 'a list \<Rightarrow> 'a list" where
  "drop_nth k xs = take k xs @ drop (Suc k) xs"

definition resume :: "nat \<Rightarrow> place list awaited \<Rightarrow> page_state \<Rightarrow> page_state" where
  "resume k r s =
     (if k < length (pending s) then
        (let s' = s\<lparr> pending := drop_nth k (pending s) \<rparr> in
         case pending s ! k of
           AwaitSelect \<Rightarrow> fetchPlaces_resume r s'
         | AwaitUpdate pl originalStatus \<Rightarrow> toggleVisitedStatus_resume pl originalStatus r s'
         | AwaitDelete pl originalPlaces \<Rightarrow> deletePlace_resume pl originalPlaces r s')
      else s)"

fun step :: "event \<Rightarrow> page_state \<Rightarrow> page_state" where
  "step ClickRetry s = click_retry s"
| "step (ClickToggle i) s = click_toggle i s"
| "step (ClickDelete confirm i) s = click_delete confirm i s"
| "step (PlaceAdded p) s = handlePlaceAdded p s"
| "step (Resume k r) s = resume k r s"

definition run :: "event list \<Rightarrow> page_state \<Rightarrow> page_state" where
  "run es s = fold step es s"

text \<open>Whether a toggle, or a delete, is suspended at its remote call.\<close>

definition is_update :: "continuation \<Rightarrow> bool" where
  "is_update c = (case c of AwaitUpdate pl b \<Rightarrow> True | _ \<Rightarrow> False)"

definition is_delete :: "continuation \<Rightarrow> bool" where
  "is_delete c = (case c of AwaitDelete pl ps \<Rightarrow> True | _ \<Rightarrow> False)"

definition toggles_in_flight :: "page_state \<Rightarrow> continuation list" where
  "toggles_in_flight s = filter is_update (pending s)"

definition deletes_in_flight :: "page_state \<Rightarrow> continuation list" where
  "deletes_in_flight s = filter is_delete (pending s)"


section \<open>The create form (AddPlaceForm.svelte)\<close>

text \<open>
  The six component variables, followed by the environment of the form: the rows sent
  to the remote insert, the number of calls suspended at the \<open>await\<close>, the clock in
  milliseconds and the due times of the pending \<open>setTimeout\<close> callbacks (every timer of
  the form runs the same callback).
\<close>

record form_state =
  name :: jsstring
  location :: jsstring
  description :: jsstring
  adding :: bool
  errorMessage :: "jsstring option"
  successMessage :: "jsstring option"
  inserts :: "(jsstring \<times> jsstring \<times> jsstring) list"
  awaiting :: nat
  now :: nat
  timers :: "nat list"

definition init_form :: form_state where
  "init_form = \<lparr> name = [], location = [], description = [], adding = False,
     errorMessage = None, successMessage = None, inserts = [], awaiting = 0,
     now = 0, timers = [] \<rparr>"

text \<open>The part of \<open>handleSubmit\<close> up to the \<open>await\<close>.\<close>

definition handleSubmit_begin :: "form_state \<Rightarrow> form_state" where
  "handleSubmit_begin f =
     (if \<not> truthy (trim (name f)) then f\<lparr> errorMessage := Some (ascii ''Name is required.'') \<rparr>
      else
        f\<lparr> adding := True, errorMessage := None, successMessage := None,
           inserts := inserts f @ [(name f, location f, description f)],
           awaiting := Suc (awaiting f) \<rparr>)"

text \<open>The \<open>finally\<close> block: the control is enabled again and the 4000 ms timer is set.\<close>

definition handleSubmit_finally :: "form_state \<Rightarrow> form_state" where
  "handleSubmit_finally f = f\<lparr> adding := False, timers := timers f @ [now f + 4000] \<rparr>"

definition handleSubmit_catch :: "js_error \<Rightarrow> form_state \<Rightarrow> form_state" where
  "handleSubmit_catch e f =
     handleSubmit_finally
       (f\<lparr> errorMessage := Some (message_or e (ascii ''Failed to add place. Please try again.'')) \<rparr>)"

text \<open>
  \<open>data[0].name\<close> on an empty array reads a property of undefined, which throws a
  TypeError inside the \<open>try\<close>; its message is the engine's (here V8's wording).
\<close>

definition undefined_name_error :: js_error where
  "undefined_name_error =
     JsError (Some (ascii ''Cannot read properties of undefined (reading '' @ [0x27] @
       ascii ''name'' @ [0x27] @ ascii '')''))"

text \<open>
  The part after the \<open>await\<close>. The second component is the record dispatched to the
  parent as \<open>placeAdded\<close>, if any.
\<close>

definition handleSubmit_resume :: "place list awaited \<Rightarrow> form_state \<Rightarrow> form_state \<times> place option" where
  "handleSubmit_resume r f0 =
     (let f = f0\<lparr> awaiting := awaiting f0 - 1 \<rparr> in
      case r of
        Rejected e \<Rightarrow> (handleSubmit_catch e f, None)
      | Fulfilled (Response d err) \<Rightarrow>
          (case err of
             Some e \<Rightarrow> (handleSubmit_catch e f, None)
           | None \<Rightarrow>
               (case d of
                  None \<Rightarrow> (handleSubmit_finally f, None)
                | Some [] \<Rightarrow> (handleSubmit_catch undefined_name_error f, None)
                | Some (row # rest) \<Rightarrow>
                    (handleSubmit_finally
                       (f\<lparr> successMessage :=
                              Some (ascii ''Successfully added \"'' @ place_name row @ ascii ''\"!''),
                           name := [], location := [], description := [] \<rparr>),
                     Some row))))"

text \<open>
  Time passing: the clock advances, and if a timer has come due its callback clears
  both messages.
\<close>

definition elapse :: "nat \<Rightarrow> form_state \<Rightarrow> form_state" where
  "elapse ms f =
     (let t = now f + ms in
      if list_ex (\<lambda>due. due \<le> t) (timers f)
      then f\<lparr> now := t, timers := filter (\<lambda>due. t < due) (timers f),
              successMessage := None, errorMessage := None \<rparr>
      else f\<lparr> now := t \<rparr>)"

text \<open>What the markup shows: each message is rendered when it is truthy.\<close>

definition shown_error :: "form_state \<Rightarrow> jsstring option" where
  "shown_error f = (if truthy_opt (errorMessage f) then errorMessage f else None)"

definition shown_success :: "form_state \<Rightarrow> jsstring option" where
  "shown_success f = (if truthy_opt (successMessage f) then successMessage f else None)"

section \<open>The page with its form\<close>

text \<open>
  The page mounts the form with \<open>on:placeAdded={handlePlaceAdded}\<close>: a dispatched record
  reaches \<open>handlePlaceAdded\<close> synchronously, before the \<open>finally\<close> block of the form.
\<close>

definition app_handleSubmit_resume ::
  "place list awaited \<Rightarrow> form_state \<times> page_state \<Rightarrow> form_state \<times> page_state" where
  "app_handleSubmit_resume r app =
     (case handleSubmit_resume r (fst app) of
        (f', None) \<Rightarrow> (f', snd app)
      | (f', Some row) \<Rightarrow> (f', handlePlaceAdded row (snd app)))"

section \<open>Calls run to completion, and outcomes\<close>

text \<open>The value that reaches the \<open>catch\<close> block of the page's handlers, if any.\<close>

definition thrown :: "'d awaited \<Rightarrow> js_error option" where
  "thrown r = (case r of Rejected e \<Rightarrow> Some e | Fulfilled (Response d err) \<Rightarrow> err)"

text \<open>
  A handler called and resumed with the outcome \<open>r\<close> of its remote call before anything
  else happens: the call returns at a guard, or suspends and is the last suspended call.
\<close>

definition toggleVisitedStatus :: "place \<Rightarrow> place list awaited \<Rightarrow> page_state \<Rightarrow> page_state" where
  "toggleVisitedStatus pl r s =
     (if updatingStatusFor s = Some (place_id pl) then s
      else resume (length (pending s)) r (toggleVisitedStatus_begin pl s))"

definition deletePlace ::
  "(jsstring \<Rightarrow> bool) \<Rightarrow> place \<Rightarrow> place list awaited \<Rightarrow> page_state \<Rightarrow> page_state" where
  "deletePlace confirm pl r s =
     (if deletingPlaceId s = Some (place_id pl) \<or> \<not> confirm (delete_prompt pl) then s
      else resume (length (pending s)) r (deletePlace_begin confirm pl s))"

definition handleSubmit :: "place list awaited \<Rightarrow> form_state \<Rightarrow> form_state \<times> place option" where
  "handleSubmit r f =
     (if \<not> truthy (trim (name f)) then (handleSubmit_begin f, None)
      else handleSubmit_resume r (handleSubmit_begin f))"

definition app_handleSubmit ::
  "place list awaited \<Rightarrow> form_state \<times> page_state \<Rightarrow> form_state \<times> page_state" where
  "app_handleSubmit r app =
     (if \<not> truthy (trim (name (fst app))) then (handleSubmit_begin (fst app), snd app)
      else app_handleSubmit_resume r (handleSubmit_begin (fst app), snd app))"

text \<open>
  Two records related by the frame of a toggle on the id \<open>target\<close>: every field but
  \<open>visited\<close> is the same, and a record with another id is the same record.
\<close>

definition visited_only :: "jsstring \<Rightarrow> place \<Rightarrow> place \<Rightarrow> bool" where
  "visited_only target p q \<longleftrightarrow>
     place_id q = place_id p \<and> place_created_at q = place_created_at p \<and>
     place_name q = place_name p \<and> place_location q = place_location p \<and>
     place_description q = place_description p \<and>
     (place_id p \<noteq> target \<longrightarrow> q = p)"


section \<open>Example inputs\<close>

definition oslo :: place where
  "oslo = \<lparr> place_id = ascii ''a'', place_created_at = ascii ''2024-05-02'',
     place_name = ascii ''Oslo'', place_location = None, place_description = None,
     place_visited = False \<rparr>"

definition rome :: place where
  "rome = \<lparr> place_id = ascii ''b'', place_created_at = ascii ''2024-05-01'',
     place_name = ascii ''Rome'', place_location = Some (ascii ''Italy''),
     place_description = None, place_visited = True \<rparr>"

definition lima :: place where
  "lima = \<lparr> place_id = ascii ''c'', place_created_at = ascii ''2024-05-03'',
     place_name = ascii ''Lima'', place_location = Some (ascii ''Peru''),
     place_description = None, place_visited = False \<rparr>"

definition yes :: "jsstring \<Rightarrow> bool" where
  "yes prompt = True"

definition no :: "jsstring \<Rightarrow> bool" where
  "no prompt = False"

definition done_ok :: "place list awaited" where
  "done_ok = Fulfilled (Response None None)"

definition offline :: js_error where
  "offline = JsError (Some (ascii ''Failed to fetch''))"

text \<open>The page after its first fetch returned the two records, and after it failed.\<close>

definition two_places :: page_state where
  "two_places = run [Resume 0 (Fulfilled (Response (Some [oslo, rome]) None))] mounted_page"

definition fetch_failed :: page_state where
  "fetch_failed = run [Resume 0 (Rejected offline)] mounted_page"

definition typed_form :: form_state where
  "typed_form = init_form\<lparr> name := ascii ''Oslo'', location := ascii ''Norway'' \<rparr>"

definition blank_form :: form_state where
  "blank_form = init_form\<lparr> name := ascii ''  '', location := ascii ''Norway'' \<rparr>"

section \<open>Auxiliary facts\<close>

lemma ascii_Cons [simp]: "ascii (c # cs) = of_nat (of_char c) # ascii cs"
  by (simp add: ascii_def)

lemma ascii_Nil [simp]: "ascii [] = []"
  by (simp add: ascii_def)

lemma dropWhile_all_iff:
  "(\<forall>c\<in>set (dropWhile P xs). P c) \<longleftrightarrow> (\<forall>c\<in>set xs. P c)"
proof
  assume all: "\<forall>c\<in>set (dropWhile P xs). P c"
  have "dropWhile P xs = []"
  proof (cases "dropWhile P xs")
    case Nil
    then show ?thesis .
  next
    case (Cons c cs)
    then have "\<not> P c"
      using hd_dropWhile [of P xs] by simp
    moreover from Cons all have "P c" by simp
    ultimately show ?thesis by simp
  qed
  then show "\<forall>c\<in>set xs. P c"
    by (simp only: dropWhile_eq_Nil_conv)
next
  assume "\<forall>c\<in>set xs. P c"
  then show "\<forall>c\<in>set (dropWhile P xs). P c"
    by (auto dest: set_dropWhileD)
qed

lemma trim_empty_iff: "trim s = [] \<longleftrightarrow> (\<forall>c\<in>set s. js_whitespace c)"
proof -
  have "trim s = [] \<longleftrightarrow> (\<forall>c\<in>set (dropWhile js_whitespace s). js_whitespace c)"
    unfolding trim_def by (simp del: dropWhile_eq_Nil_conv add: dropWhile_eq_Nil_conv [of js_whitespace "rev (dropWhile js_whitespace s)"])
  then show ?thesis
    by (simp only: dropWhile_all_iff)
qed

lemma thrown_cases:
  obtains (ok) d where "r = Fulfilled (Response d None)"
  | (error) d e where "r = Fulfilled (Response d (Some e))"
  | (rejected) e where "r = Rejected e"
proof (cases r)
  case (Fulfilled resp)
  then show ?thesis
    by (cases resp; cases "thrown r") (auto simp: thrown_def intro: ok error)
next
  case (Rejected e)
  then show ?thesis by (rule rejected)
qed

lemma toggle_resume_thrown:
  "toggleVisitedStatus_resume pl b r s =
     (case thrown r of Some e \<Rightarrow> toggleVisitedStatus_catch pl b e s
      | None \<Rightarrow> s\<lparr> updatingStatusFor := None \<rparr>)"
  by (cases r rule: thrown_cases) (simp_all add: toggleVisitedStatus_resume_def thrown_def)

lemma delete_resume_thrown:
  "deletePlace_resume pl ps r s =
     (case thrown r of Some e \<Rightarrow> deletePlace_catch pl ps e s
      | None \<Rightarrow> s\<lparr> deletingPlaceId := None \<rparr>)"
  by (cases r rule: thrown_cases) (simp_all add: deletePlace_resume_def thrown_def)

lemma resume_after_toggle_begin:
  assumes "updatingStatusFor s \<noteq> Some (place_id pl)"
  shows "resume (length (pending s)) r (toggleVisitedStatus_begin pl s) =
         toggleVisitedStatus_resume pl (place_visited pl) r
           ((toggleVisitedStatus_begin pl s)\<lparr> pending := pending s \<rparr>)"
  using assms by (simp add: resume_def toggleVisitedStatus_begin_def drop_nth_def)

lemma resume_after_delete_begin:
  assumes "deletingPlaceId s \<noteq> Some (place_id pl)" and "confirm (delete_prompt pl)"
  shows "resume (length (pending s)) r (deletePlace_begin confirm pl s) =
         deletePlace_resume pl (places s) r
           ((deletePlace_begin confirm pl s)\<lparr> pending := pending s \<rparr>)"
  using assms by (simp add: resume_def deletePlace_begin_def drop_nth_def)

lemma flip_back:
  assumes "pl \<in> set ps" and "distinct (map place_id ps)"
  shows "map (\<lambda>p. if place_id p = place_id pl then p\<lparr> place_visited := place_visited pl \<rparr> else p)
           (map (\<lambda>p. if place_id p = place_id pl then p\<lparr> place_visited := \<not> place_visited p \<rparr> else p) ps)
         = ps"
proof -
  have "\<forall>p\<in>set ps. place_id p = place_id pl \<longrightarrow> p = pl"
    using assms by (auto simp: distinct_map dest: inj_onD)
  then have "\<forall>p\<in>set ps. (\<lambda>p. if place_id p = place_id pl then p\<lparr> place_visited := place_visited pl \<rparr> else p)
           ((\<lambda>p. if place_id p = place_id pl then p\<lparr> place_visited := \<not> place_visited p \<rparr> else p) p) = p"
    by auto
  then show ?thesis
    by (simp add: map_idI)
qed

lemma two_places_eq:
  "two_places = \<lparr> places = [oslo, rome], loading = False, error = None,
     updatingStatusFor = None, deletingPlaceId = None, alerts = [], calls = [SelectAll],
     pending = [] \<rparr>"
  by (simp add: two_places_def run_def mounted_page_def init_page_def fetchPlaces_begin_def
      resume_def drop_nth_def fetchPlaces_resume_def)

lemma oslo_rome_ids: "place_id oslo \<noteq> place_id rome" "oslo \<noteq> rome"
  by (auto simp: oslo_def rome_def)

lemma oslo_fields:
  "place_id oslo = ascii ''a''" "place_name oslo = ascii ''Oslo''" "place_visited oslo = False"
  by (simp_all add: oslo_def)

lemma rome_fields:
  "place_id rome = ascii ''b''" "place_name rome = ascii ''Rome''" "place_visited rome = True"
  by (simp_all add: rome_def)

lemma lima_fields:
  "place_id lima = ascii ''c''" "place_name lima = ascii ''Lima''" "place_visited lima = False"
  by (simp_all add: lima_def)

lemma offline_text:
  "message_text offline = ascii ''Failed to fetch''"
  "message_or offline fallback = ascii ''Failed to fetch''"
  by (simp_all add: offline_def message_text_def message_or_def truthy_def)

lemma fetch_failed_eq:
  "fetch_failed = \<lparr> places = [], loading = False, error = Some (ascii ''Failed to fetch''),
     updatingStatusFor = None, deletingPlaceId = None, alerts = [], calls = [SelectAll],
     pending = [] \<rparr>"
  by (simp add: fetch_failed_def run_def mounted_page_def init_page_def fetchPlaces_begin_def
      resume_def drop_nth_def fetchPlaces_resume_def fetchPlaces_catch_def offline_text)

lemma typed_form_ok: "truthy (trim (name typed_form))"
  by (simp add: typed_form_def init_form_def trim_def js_whitespace_def truthy_def)

lemma message_or_truthy: "truthy fallback \<Longrightarrow> truthy (message_or e fallback)"
  by (simp add: message_or_def split: option.split)

lemma submit_resume_thrown:
  assumes "thrown r = Some e"
  shows "handleSubmit_resume r f =
    (handleSubmit_catch e (f\<lparr> awaiting := awaiting f - 1 \<rparr>), None)"
  using assms
  by (cases r rule: thrown_cases) (simp_all add: handleSubmit_resume_def thrown_def Let_def)

subsection \<open>A marker that is set has a suspended call\<close>









subsection \<open>Unfolding the page on concrete inputs\<close>

lemmas page_defs = run_def click_toggle_def click_delete_def render_def toggle_disabled_def
  delete_disabled_def toggleVisitedStatus_begin_def deletePlace_begin_def resume_def
  drop_nth_def toggleVisitedStatus_resume_def deletePlace_resume_def truthy_opt_def truthy_def
  toggles_in_flight_def deletes_in_flight_def is_update_def is_delete_def Let_def

subsection \<open>Events that neither start nor complete a toggle\<close>



section \<open>The create form: validation\<close>

text \<open>
  C5. Submitting with a name that is empty or consists of whitespace only issues no
  remote insert and suspends no call, sets no timer, shows \<open>Name is required.\<close>, and
  leaves the three entered values as they are.
\<close>

theorem empty_name_rejected:
  assumes "\<forall>c\<in>set (name f). js_whitespace c"
  shows "inserts (handleSubmit_begin f) = inserts f
    \<and> awaiting (handleSubmit_begin f) = awaiting f
    \<and> timers (handleSubmit_begin f) = timers f
    \<and> shown_error (handleSubmit_begin f) = Some (ascii ''Name is required.'')
    \<and> name (handleSubmit_begin f) = name f
    \<and> location (handleSubmit_begin f) = location f
    \<and> description (handleSubmit_begin f) = description f"
proof -
  from assms have "trim (name f) = []"
    by (simp add: trim_empty_iff)
  then have "handleSubmit_begin f = f\<lparr> errorMessage := Some (ascii ''Name is required.'') \<rparr>"
    by (simp add: handleSubmit_begin_def truthy_def)
  then show ?thesis
    by (simp add: shown_error_def truthy_opt_def truthy_def)
qed

theorem empty_name_rejected_witness:
  "list_all js_whitespace (name blank_form)
   \<and> inserts (handleSubmit_begin blank_form) = []
   \<and> shown_error (handleSubmit_begin blank_form) = Some (ascii ''Name is required.'')
   \<and> name (handleSubmit_begin blank_form) = ascii ''  ''
   \<and> location (handleSubmit_begin blank_form) = ascii ''Norway''"
  using empty_name_rejected [of blank_form]
  by (simp add: blank_form_def init_form_def js_whitespace_def)

section \<open>The create form: completion of the remote insert\<close>

text \<open>
  C6 (amended). On a successful create the three fields are cleared, the success
  message is shown, the created record is dispatched to the parent and is put at the
  head of the places list of the page. With the identifiers of that list unique, the
  page displays it, the new record at its head, unless it is showing the error of a
  failed fetch; in that case it keeps showing the error.
\<close>

theorem create_success:
  assumes "truthy (trim (name f))"
    and "distinct (map place_id (row # places pg))"
  shows "name (fst (app_handleSubmit (Fulfilled (Response (Some (row # rest)) None)) (f, pg))) = []
    \<and> location (fst (app_handleSubmit (Fulfilled (Response (Some (row # rest)) None)) (f, pg))) = []
    \<and> description (fst (app_handleSubmit (Fulfilled (Response (Some (row # rest)) None)) (f, pg))) = []
    \<and> shown_success (fst (app_handleSubmit (Fulfilled (Response (Some (row # rest)) None)) (f, pg))) =
        Some (ascii ''Successfully added \"'' @ place_name row @ ascii ''\"!'')
    \<and> snd (handleSubmit (Fulfilled (Response (Some (row # rest)) None)) f) = Some row
    \<and> places (snd (app_handleSubmit (Fulfilled (Response (Some (row # rest)) None)) (f, pg))) =
        row # places pg
    \<and> render (snd (app_handleSubmit (Fulfilled (Response (Some (row # rest)) None)) (f, pg))) =
        (if truthy_opt (error pg) then ErrorView (the (error pg))
         else ListView (row # places pg))"
  using assms
  by (simp add: app_handleSubmit_def app_handleSubmit_resume_def handleSubmit_def
      handleSubmit_resume_def handleSubmit_begin_def handleSubmit_finally_def
      handlePlaceAdded_def Let_def shown_success_def truthy_opt_def truthy_def render_def)

theorem create_success_witness:
  "truthy (trim (name typed_form))
   \<and> distinct (map place_id (lima # places two_places))
   \<and> name (fst (app_handleSubmit (Fulfilled (Response (Some [lima]) None)) (typed_form, two_places))) = []
   \<and> shown_success (fst (app_handleSubmit (Fulfilled (Response (Some [lima]) None))
        (typed_form, two_places))) = Some (ascii ''Successfully added \"Lima\"!'')
   \<and> render (snd (app_handleSubmit (Fulfilled (Response (Some [lima]) None)) (typed_form, two_places))) =
        ListView [lima, oslo, rome]"
proof -
  have ids: "distinct (map place_id (lima # places two_places))"
    by (simp add: two_places_eq lima_fields oslo_fields rome_fields)
  from create_success [OF typed_form_ok ids, of "[]"] typed_form_ok ids show ?thesis
    by (simp add: two_places_eq lima_fields truthy_opt_def)
qed

text \<open>
  C6 as stated fails on a page whose first fetch failed: the create succeeds and the
  record is in the places list, but the page renders the error block and no list.
\<close>

theorem created_record_not_displayed:
  "shown_success (fst (app_handleSubmit (Fulfilled (Response (Some [oslo]) None))
       (typed_form, fetch_failed))) = Some (ascii ''Successfully added \"Oslo\"!'')
   \<and> places (snd (app_handleSubmit (Fulfilled (Response (Some [oslo]) None))
       (typed_form, fetch_failed))) = [oslo]
   \<and> render (snd (app_handleSubmit (Fulfilled (Response (Some [oslo]) None))
       (typed_form, fetch_failed))) = ErrorView (ascii ''Failed to fetch'')"
  using typed_form_ok
  by (simp add: app_handleSubmit_def app_handleSubmit_resume_def handleSubmit_resume_def
      handleSubmit_begin_def handleSubmit_finally_def handlePlaceAdded_def Let_def
      shown_success_def truthy_opt_def truthy_def render_def fetch_failed_eq oslo_fields)

text \<open>
  C7. When the remote insert fails (the promise is rejected, or the response carries an
  error), the three fields keep the values that were submitted, nothing is dispatched,
  and the message shown is the failure's message text or, if that is undefined or empty,
  \<open>Failed to add place. Please try again.\<close> The \<open>finally\<close> block sets a timer 4000 ms
  ahead: the message is still shown before that (no older timer being due) and is
  gone once 4000 ms have passed.
\<close>

theorem failed_create_keeps_fields:
  assumes "truthy (trim (name f))" and "thrown r = Some e"
  shows "name (fst (handleSubmit r f)) = name f
    \<and> location (fst (handleSubmit r f)) = location f
    \<and> description (fst (handleSubmit r f)) = description f
    \<and> snd (handleSubmit r f) = None
    \<and> shown_error (fst (handleSubmit r f)) =
        Some (case message e of
                None \<Rightarrow> ascii ''Failed to add place. Please try again.''
              | Some m \<Rightarrow> if m = [] then ascii ''Failed to add place. Please try again.'' else m)
    \<and> timers (fst (handleSubmit r f)) = timers f @ [now f + 4000]
    \<and> (\<forall>ms. ms < 4000 \<and> (\<forall>due\<in>set (timers f). now f + ms < due) \<longrightarrow>
          shown_error (elapse ms (fst (handleSubmit r f))) =
            Some (case message e of
                    None \<Rightarrow> ascii ''Failed to add place. Please try again.''
                  | Some m \<Rightarrow> if m = [] then ascii ''Failed to add place. Please try again.'' else m))
    \<and> (\<forall>ms. 4000 \<le> ms \<longrightarrow>
          shown_error (elapse ms (fst (handleSubmit r f))) = None
          \<and> shown_success (elapse ms (fst (handleSubmit r f))) = None)"
proof -
  let ?fallback = "ascii ''Failed to add place. Please try again.''"
  let ?m = "case message e of None \<Rightarrow> ?fallback | Some m \<Rightarrow> if m = [] then ?fallback else m"
  let ?f = "fst (handleSubmit r f)"
  have unfolded: "message_or e ?fallback = ?m"
    by (simp add: message_or_def truthy_def split: option.split)
  have m: "truthy ?m"
    unfolding unfolded [symmetric] by (rule message_or_truthy) (simp add: truthy_def)
  have whole: "handleSubmit r f =
      (f\<lparr> adding := False, errorMessage := Some ?m, successMessage := None,
          inserts := inserts f @ [(name f, location f, description f)],
          timers := timers f @ [now f + 4000] \<rparr>, None)"
    using assms unfolding unfolded [symmetric]
    by (simp add: handleSubmit_def handleSubmit_begin_def submit_resume_thrown
        handleSubmit_catch_def handleSubmit_finally_def)
  have shown: "shown_error ?f = Some ?m"
    using m by (simp add: whole shown_error_def truthy_opt_def)
  have early: "shown_error (elapse ms ?f) = Some ?m"
    if "ms < 4000" and "\<forall>due\<in>set (timers f). now f + ms < due" for ms
  proof -
    from that have "\<not> list_ex (\<lambda>due. due \<le> now f + ms) (timers f @ [now f + 4000])"
      by (auto simp: list_ex_iff)
    then show ?thesis
      using m by (simp add: whole elapse_def Let_def shown_error_def truthy_opt_def)
  qed
  have late: "shown_error (elapse ms ?f) = None \<and> shown_success (elapse ms ?f) = None"
    if "4000 \<le> ms" for ms
  proof -
    from that have "list_ex (\<lambda>due. due \<le> now f + ms) (timers f @ [now f + 4000])"
      by (simp add: list_ex_iff)
    then show ?thesis
      by (simp add: whole elapse_def Let_def shown_error_def shown_success_def truthy_opt_def)
  qed
  from shown early late show ?thesis
    by (simp add: whole)
qed

theorem failed_create_keeps_fields_witness:
  "truthy (trim (name typed_form))
   \<and> thrown (Rejected offline :: place list awaited) = Some offline
   \<and> name (fst (handleSubmit (Rejected offline) typed_form)) = ascii ''Oslo''
   \<and> location (fst (handleSubmit (Rejected offline) typed_form)) = ascii ''Norway''
   \<and> shown_error (fst (handleSubmit (Rejected offline) typed_form)) = Some (ascii ''Failed to fetch'')
   \<and> shown_error (elapse 3999 (fst (handleSubmit (Rejected offline) typed_form))) =
        Some (ascii ''Failed to fetch'')
   \<and> shown_error (elapse 4000 (fst (handleSubmit (Rejected offline) typed_form))) = None
   \<and> thrown (Fulfilled (Response None (Some (JsError None))) :: place list awaited) =
        Some (JsError None)
   \<and> shown_error (fst (handleSubmit (Fulfilled (Response None (Some (JsError None)))) typed_form)) =
        Some (ascii ''Failed to add place. Please try again.'')
   \<and> thrown (Rejected (JsError (Some [])) :: place list awaited) = Some (JsError (Some []))
   \<and> shown_error (fst (handleSubmit (Rejected (JsError (Some []))) typed_form)) =
        Some (ascii ''Failed to add place. Please try again.'')"
proof -
  have e: "thrown (Rejected offline :: place list awaited) = Some offline"
    "thrown (Fulfilled (Response None (Some (JsError None))) :: place list awaited) =
       Some (JsError None)"
    "thrown (Rejected (JsError (Some [])) :: place list awaited) = Some (JsError (Some []))"
    by (simp_all add: thrown_def)
  have sel: "name typed_form = ascii ''Oslo''" "location typed_form = ascii ''Norway''"
    "timers typed_form = []"
    by (simp_all add: typed_form_def init_form_def)
  from failed_create_keeps_fields [OF typed_form_ok e(1)]
    failed_create_keeps_fields [OF typed_form_ok e(2)]
    failed_create_keeps_fields [OF typed_form_ok e(3)]
    typed_form_ok e
  show ?thesis
    by (simp add: sel offline_def)
qed

text \<open>
  C8. The claim is that every message of the form, the required-field error included,
  is cleared 4000 ms later. The validation branch of \<open>handleSubmit\<close> returns before the
  \<open>try\<close> whose \<open>finally\<close> sets the timer: on a fresh form with a blank name no timer is
  pending after the submit, and the message is still shown after any amount of time.
\<close>

theorem validation_error_stays:
  "timers (handleSubmit_begin blank_form) = []
   \<and> shown_error (handleSubmit_begin blank_form) = Some (ascii ''Name is required.'')
   \<and> shown_error (elapse ms (handleSubmit_begin blank_form)) = Some (ascii ''Name is required.'')"
  by (simp add: blank_form_def init_form_def handleSubmit_begin_def trim_def js_whitespace_def
      truthy_def truthy_opt_def shown_error_def elapse_def Let_def)

section \<open>The list view: delete\<close>

text \<open>
  C10. When the user declines the confirmation dialog, \<open>deletePlace\<close> returns the state
  it was called in: no remote call, no suspended call, the same places list, the same
  markers and the same value of every other variable.
\<close>

theorem declined_delete_changes_nothing:
  assumes "\<not> confirm (delete_prompt pl)"
  shows "deletePlace_begin confirm pl s = s \<and> deletePlace confirm pl r s = s"
  using assms by (simp add: deletePlace_begin_def deletePlace_def)

theorem declined_delete_changes_nothing_witness:
  "\<not> no (delete_prompt oslo)
   \<and> deletePlace_begin no oslo two_places = two_places
   \<and> calls (deletePlace no oslo done_ok two_places) = [SelectAll]
   \<and> places (deletePlace no oslo done_ok two_places) = [oslo, rome]"
  using declined_delete_changes_nothing [of no oslo two_places done_ok]
  by (simp add: no_def two_places_eq)

text \<open>
  C4. A confirmed delete of a record of the list (identifiers being unique) removes
  exactly that record at once, the others staying in their order. If the remote delete
  fails, the places list is again the list from before the delete, and an alert with the
  record's name and the error text is raised; if it succeeds the record stays removed.
  Whatever state \<open>t\<close> the page is in when the failure arrives, the list is then the
  snapshot taken when the delete started.
\<close>

theorem delete_failure_restores:
  assumes "pl \<in> set (places s)"
    and "distinct (map place_id (places s))"
    and "deletingPlaceId s \<noteq> Some (place_id pl)"
    and "confirm (delete_prompt pl)"
  shows "places (deletePlace_begin confirm pl s) = remove1 pl (places s)
    \<and> (thrown r = Some e \<longrightarrow>
         places (deletePlace confirm pl r s) = places s
         \<and> alerts (deletePlace confirm pl r s) = alerts s @
             [ascii ''Failed to delete '' @ place_name pl @ ascii '': '' @ message_text e])
    \<and> (thrown r = None \<longrightarrow>
         places (deletePlace confirm pl r s) = remove1 pl (places s)
         \<and> alerts (deletePlace confirm pl r s) = alerts s)
    \<and> (thrown r = Some e \<longrightarrow> places (deletePlace_resume pl (places s) r t) = places s)"
proof -
  have "filter (\<lambda>p. place_id p \<noteq> place_id pl) (places s) = filter (\<lambda>p. pl \<noteq> p) (places s)"
    by (rule filter_cong [OF refl]) (use assms(1,2) in \<open>auto simp: distinct_map dest: inj_onD\<close>)
  also have "\<dots> = remove1 pl (places s)"
    using assms(2) by (simp add: distinct_remove1_removeAll removeAll_filter_not_eq distinct_map)
  finally have removed: "places (deletePlace_begin confirm pl s) = remove1 pl (places s)"
    using assms(3,4) by (simp add: deletePlace_begin_def)
  have whole: "deletePlace confirm pl r s =
      deletePlace_resume pl (places s) r ((deletePlace_begin confirm pl s)\<lparr> pending := pending s \<rparr>)"
    using assms(3,4) by (simp add: deletePlace_def resume_after_delete_begin)
  have failure: "places (deletePlace confirm pl r s) = places s
      \<and> alerts (deletePlace confirm pl r s) = alerts s @
          [ascii ''Failed to delete '' @ place_name pl @ ascii '': '' @ message_text e]"
    if "thrown r = Some e"
    using that assms(3,4)
    by (simp add: whole delete_resume_thrown deletePlace_catch_def deletePlace_begin_def)
  have success: "places (deletePlace confirm pl r s) = places (deletePlace_begin confirm pl s)
      \<and> alerts (deletePlace confirm pl r s) = alerts s"
    if "thrown r = None"
    using that assms(3,4)
    by (simp add: whole delete_resume_thrown deletePlace_begin_def)
  have later: "places (deletePlace_resume pl (places s) r t) = places s" if "thrown r = Some e"
    using that by (simp add: delete_resume_thrown deletePlace_catch_def)
  from removed failure success later show ?thesis by simp
qed

theorem delete_failure_restores_witness:
  "rome \<in> set (places two_places)
   \<and> distinct (map place_id (places two_places))
   \<and> deletingPlaceId two_places \<noteq> Some (place_id rome)
   \<and> yes (delete_prompt rome)
   \<and> thrown (Rejected offline :: place list awaited) = Some offline
   \<and> places (deletePlace_begin yes rome two_places) = [oslo]
   \<and> places (deletePlace yes rome (Rejected offline) two_places) = [oslo, rome]
   \<and> alerts (deletePlace yes rome (Rejected offline) two_places) =
       [ascii ''Failed to delete Rome: Failed to fetch'']"
  using delete_failure_restores [of rome two_places yes "Rejected offline" offline two_places]
    oslo_rome_ids
  by (simp add: two_places_eq thrown_def rome_fields offline_text yes_def)

section \<open>The list view: toggle\<close>

text \<open>
  C3. A toggle of a record of the list (identifiers being unique) flips that record at
  once. If the remote update fails, the places list is again the list from before the
  toggle, and one alert is raised, \<open>Failed to update status for\<close>, the record's name, a
  colon and the message text of the error (\<open>undefined\<close> when the error has none); if it
  succeeds, the flipped list is kept and nothing is alerted. Whatever state \<open>t\<close> the
  page is in when the failure arrives, every record with the target's identifier then
  has the value of \<open>visited\<close> from before the toggle.
\<close>

theorem toggle_failure_restores:
  assumes "pl \<in> set (places s)"
    and "distinct (map place_id (places s))"
    and "updatingStatusFor s \<noteq> Some (place_id pl)"
  shows "places (toggleVisitedStatus_begin pl s) =
           map (\<lambda>p. if p = pl then pl\<lparr> place_visited := \<not> place_visited pl \<rparr> else p) (places s)
    \<and> (thrown r = Some e \<longrightarrow>
         places (toggleVisitedStatus pl r s) = places s
         \<and> alerts (toggleVisitedStatus pl r s) = alerts s @
             [ascii ''Failed to update status for '' @ place_name pl @ ascii '': '' @
              (case message e of None \<Rightarrow> ascii ''undefined'' | Some m \<Rightarrow> m)])
    \<and> (thrown r = None \<longrightarrow>
         places (toggleVisitedStatus pl r s) =
           map (\<lambda>p. if p = pl then pl\<lparr> place_visited := \<not> place_visited pl \<rparr> else p) (places s)
         \<and> alerts (toggleVisitedStatus pl r s) = alerts s)
    \<and> (thrown r = Some e \<longrightarrow>
         list_all (\<lambda>p. place_id p \<noteq> place_id pl \<or> place_visited p = place_visited pl)
           (places (toggleVisitedStatus_resume pl (place_visited pl) r t)))"
proof -
  have flipped: "places (toggleVisitedStatus_begin pl s) =
      map (\<lambda>p. if p = pl then pl\<lparr> place_visited := \<not> place_visited pl \<rparr> else p) (places s)"
  proof -
    have "places (toggleVisitedStatus_begin pl s) =
      map (\<lambda>p. if place_id p = place_id pl then p\<lparr> place_visited := \<not> place_visited p \<rparr> else p) (places s)"
      using assms(3) by (simp add: toggleVisitedStatus_begin_def)
    also have "\<dots> = map (\<lambda>p. if p = pl then pl\<lparr> place_visited := \<not> place_visited pl \<rparr> else p) (places s)"
      by (rule map_cong [OF refl]) (use assms(1,2) in \<open>auto simp: distinct_map dest: inj_onD\<close>)
    finally show ?thesis .
  qed
  have whole: "toggleVisitedStatus pl r s =
      toggleVisitedStatus_resume pl (place_visited pl) r
        ((toggleVisitedStatus_begin pl s)\<lparr> pending := pending s \<rparr>)"
    using assms(3) by (simp add: toggleVisitedStatus_def resume_after_toggle_begin)
  have failure: "places (toggleVisitedStatus pl r s) = places s
      \<and> alerts (toggleVisitedStatus pl r s) = alerts s @
          [ascii ''Failed to update status for '' @ place_name pl @ ascii '': '' @
           (case message e of None \<Rightarrow> ascii ''undefined'' | Some m \<Rightarrow> m)]"
    if "thrown r = Some e"
    using that assms(3) flip_back [OF assms(1,2)]
    by (simp add: whole toggle_resume_thrown toggleVisitedStatus_catch_def
        toggleVisitedStatus_begin_def message_text_def)
  have success: "places (toggleVisitedStatus pl r s) = places (toggleVisitedStatus_begin pl s)
      \<and> alerts (toggleVisitedStatus pl r s) = alerts s"
    if "thrown r = None"
    using that assms(3)
    by (simp add: whole toggle_resume_thrown toggleVisitedStatus_begin_def)
  have later: "list_all (\<lambda>p. place_id p \<noteq> place_id pl \<or> place_visited p = place_visited pl)
      (places (toggleVisitedStatus_resume pl (place_visited pl) r t))"
    if "thrown r = Some e"
    using that
    by (auto simp: toggle_resume_thrown toggleVisitedStatus_catch_def list_all_iff)
  from flipped failure success later show ?thesis by simp
qed


theorem toggle_failure_restores_witness:
  "oslo \<in> set (places two_places)
   \<and> distinct (map place_id (places two_places))
   \<and> updatingStatusFor two_places \<noteq> Some (place_id oslo)
   \<and> thrown (Rejected offline :: place list awaited) = Some offline
   \<and> places (toggleVisitedStatus_begin oslo two_places) = [oslo\<lparr> place_visited := True \<rparr>, rome]
   \<and> places (toggleVisitedStatus oslo (Rejected offline) two_places) = [oslo, rome]
   \<and> alerts (toggleVisitedStatus oslo (Rejected offline) two_places) =
       [ascii ''Failed to update status for Oslo: Failed to fetch'']
   \<and> thrown (Rejected (JsError None) :: place list awaited) = Some (JsError None)
   \<and> alerts (toggleVisitedStatus oslo (Rejected (JsError None)) two_places) =
       [ascii ''Failed to update status for Oslo: undefined'']"
  using toggle_failure_restores [of oslo two_places "Rejected offline" offline two_places]
    toggle_failure_restores [of oslo two_places "Rejected (JsError None)" "JsError None" two_places]
    oslo_rome_ids
  by (simp add: two_places_eq thrown_def oslo_fields offline_def)

text \<open>
  C9. For every list and every targeted record, the optimistic update of
  \<open>toggleVisitedStatus\<close> and the completion of the call (the rollback after a failure
  included) keep the length and the order of the list, leave a record with another
  identifier as it is, and change no field of a targeted record other than \<open>visited\<close>.
\<close>

theorem toggle_frame:
  "length (places (toggleVisitedStatus_begin pl s)) = length (places s)
   \<and> list_all2 (visited_only (place_id pl)) (places s) (places (toggleVisitedStatus_begin pl s))
   \<and> length (places (toggleVisitedStatus_resume pl originalStatus r t)) = length (places t)
   \<and> list_all2 (visited_only (place_id pl)) (places t)
        (places (toggleVisitedStatus_resume pl originalStatus r t))"
proof -
  have frame: "list_all2 (visited_only i) ps
      (map (\<lambda>p. if place_id p = i then p\<lparr> place_visited := g p \<rparr> else p) ps)" for i g ps
    by (simp add: list_all2_conv_all_nth visited_only_def)
  have same: "list_all2 (visited_only i) ps ps" for i ps
    by (simp add: list_all2_conv_all_nth visited_only_def)
  have start: "list_all2 (visited_only (place_id pl)) (places s)
      (places (toggleVisitedStatus_begin pl s))"
    by (simp add: toggleVisitedStatus_begin_def frame same)
  have undo: "list_all2 (visited_only (place_id pl)) (places t)
      (places (toggleVisitedStatus_resume pl originalStatus r t))"
    by (cases "thrown r")
      (simp_all add: toggle_resume_thrown toggleVisitedStatus_catch_def frame same)
  from start undo show ?thesis
    by (simp add: list_all2_lengthD [symmetric])
qed

theorem toggle_frame_witness:
  "list_all2 (visited_only (place_id oslo)) [oslo, rome] [oslo\<lparr> place_visited := True \<rparr>, rome]
   \<and> places (toggleVisitedStatus_begin oslo two_places) = [oslo\<lparr> place_visited := True \<rparr>, rome]"
  using toggle_frame [of oslo two_places False done_ok two_places]
  by (simp add: two_places_eq toggleVisitedStatus_begin_def oslo_fields rome_fields)

section \<open>The list view: the two markers\<close>

text \<open>
  C1. While a toggle is in flight, no delete of any record may start. The page attempts
  this: every delete button is disabled on \<open>!!updatingStatusFor\<close>. But the one marker is
  shared by all toggles and the \<open>finally\<close> block of each clears it. On the page showing
  two records, the toggles of both are started and the first completes: the toggle of
  the second record is still suspended, the marker is null, and a confirmed click on the
  delete button of the first record removes it from the list and issues the remote
  delete.
\<close>

theorem delete_starts_during_toggle:
  "toggles_in_flight (run [ClickToggle 0, ClickToggle 1, Resume 0 done_ok] two_places) =
        [AwaitUpdate rome True]
   \<and> updatingStatusFor (run [ClickToggle 0, ClickToggle 1, Resume 0 done_ok] two_places) = None
   \<and> places (run [ClickToggle 0, ClickToggle 1, Resume 0 done_ok] two_places) =
        [oslo\<lparr> place_visited := True \<rparr>, rome\<lparr> place_visited := False \<rparr>]
   \<and> places (run [ClickToggle 0, ClickToggle 1, Resume 0 done_ok, ClickDelete yes 0] two_places) =
        [rome\<lparr> place_visited := False \<rparr>]
   \<and> calls (run [ClickToggle 0, ClickToggle 1, Resume 0 done_ok, ClickDelete yes 0] two_places) =
        [SelectAll, UpdateVisited (ascii ''a'') True, UpdateVisited (ascii ''b'') False,
         DeleteById (ascii ''a'')]"
  by (simp add: page_defs two_places_eq oslo_fields rome_fields done_ok_def yes_def)




end
